theory Spec2Isabelle
  imports Complex_Main
begin

section \<open>Python values\<close>

text \<open>
  The script \<^verbatim>\<open>scripts/analysis.py\<close> works on the objects that
  \<^verbatim>\<open>response.json()\<close> returns and on the cells of pandas frames built from them.
  Both are modelled by one datatype of Python values. A float is a real number, one of the
  two infinities, or NaN (the missing-value marker of pandas); rounding of finite results,
  the sign of zero and the 64-bit range of numpy integers are not modelled.
\<close>

datatype pyfloat = NaN | Fin real | PInf | NInf

datatype json =
    JNull
  | JBool bool
  | JInt int
  | JFloat pyfloat
  | JStr string
  | JArr "json list"
  | JObj "(string \<times> json) list"

text \<open>The exceptions that the modelled code can raise.\<close>

datatype error =
    ConnectionError
  | HTTPError nat
  | JSONDecodeError
  | IndexError
  | KeyError string
  | TypeError
  | ValueError
  | OverflowError

definition bind_e :: "error + 'a \<Rightarrow> ('a \<Rightarrow> error + 'b) \<Rightarrow> error + 'b" where
  "bind_e m f = (case m of Inl e \<Rightarrow> Inl e | Inr x \<Rightarrow> f x)"

text \<open>\<^verbatim>\<open>obj[i]\<close> for an integer \<open>i\<close>: lists and strings are indexed (negative
  indices count from the end), a dict has no integer key after JSON decoding, and the
  other values are not subscriptable.\<close>

definition norm_index :: "nat \<Rightarrow> int \<Rightarrow> nat option" where
  "norm_index n i =
     (let j = (if i < 0 then int n + i else i)
      in if 0 \<le> j \<and> j < int n then Some (nat j) else None)"

fun getitem_int :: "json \<Rightarrow> int \<Rightarrow> error + json" where
  "getitem_int (JArr xs) i =
     (case norm_index (length xs) i of None \<Rightarrow> Inl IndexError | Some j \<Rightarrow> Inr (xs ! j))"
| "getitem_int (JStr s) i =
     (case norm_index (length s) i of None \<Rightarrow> Inl IndexError | Some j \<Rightarrow> Inr (JStr [s ! j]))"
| "getitem_int (JObj kvs) i = Inl (KeyError ''<int>'')"
| "getitem_int JNull i = Inl TypeError"
| "getitem_int (JBool b) i = Inl TypeError"
| "getitem_int (JInt n) i = Inl TypeError"
| "getitem_int (JFloat x) i = Inl TypeError"

text \<open>\<^verbatim>\<open>obj["k"]\<close> for a string key: only a dict has string keys.\<close>

fun getitem_str :: "json \<Rightarrow> string \<Rightarrow> error + json" where
  "getitem_str (JObj kvs) k =
     (case map_of kvs k of None \<Rightarrow> Inl (KeyError k) | Some v \<Rightarrow> Inr v)"
| "getitem_str JNull k = Inl TypeError"
| "getitem_str (JBool b) k = Inl TypeError"
| "getitem_str (JInt n) k = Inl TypeError"
| "getitem_str (JFloat x) k = Inl TypeError"
| "getitem_str (JStr s) k = Inl TypeError"
| "getitem_str (JArr xs) k = Inl TypeError"

text \<open>\<^verbatim>\<open>for rec in records\<close>: a list yields its elements, a string its characters,
  a dict its keys; anything else is not iterable.\<close>

fun py_iter :: "json \<Rightarrow> error + json list" where
  "py_iter (JArr xs) = Inr xs"
| "py_iter (JStr s) = Inr (map (\<lambda>c. JStr [c]) s)"
| "py_iter (JObj kvs) = Inr (map (\<lambda>kv. JStr (fst kv)) kvs)"
| "py_iter JNull = Inl TypeError"
| "py_iter (JBool b) = Inl TypeError"
| "py_iter (JInt n) = Inl TypeError"
| "py_iter (JFloat x) = Inl TypeError"

subsection \<open>The built-in \<^verbatim>\<open>int\<close>\<close>

text \<open>On a string, \<^verbatim>\<open>int\<close> strips surrounding whitespace, reads an optional sign
  and then decimal digits, where single underscores may separate digits. (ASCII only: the
  other Unicode digits and spaces that Python accepts are not modelled.)\<close>

definition is_space :: "char \<Rightarrow> bool" where
  "is_space c = (let n = (of_char c :: nat) in (9 \<le> n \<and> n \<le> 13) \<or> (28 \<le> n \<and> n \<le> 32))"

definition strip :: "string \<Rightarrow> string" where
  "strip s = rev (dropWhile is_space (rev (dropWhile is_space s)))"

definition digit_val :: "char \<Rightarrow> nat option" where
  "digit_val c =
     (let n = (of_char c :: nat) in if 48 \<le> n \<and> n \<le> 57 then Some (n - 48) else None)"

fun parse_digits :: "nat \<Rightarrow> bool \<Rightarrow> string \<Rightarrow> nat option" where
  "parse_digits acc prev [] = (if prev then Some acc else None)"
| "parse_digits acc prev (c # cs) =
     (if c = CHR ''_'' then (if prev then parse_digits acc False cs else None)
      else (case digit_val c of
              None \<Rightarrow> None
            | Some d \<Rightarrow> parse_digits (10 * acc + d) True cs))"

definition int_of_str :: "string \<Rightarrow> int option" where
  "int_of_str s =
     (case strip s of
        [] \<Rightarrow> None
      | c # cs \<Rightarrow>
          if c = CHR ''-'' then map_option (\<lambda>n. - int n) (parse_digits 0 False cs)
          else if c = CHR ''+'' then map_option int (parse_digits 0 False cs)
          else map_option int (parse_digits 0 False (c # cs)))"

fun py_int :: "json \<Rightarrow> error + int" where
  "py_int (JInt n) = Inr n"
| "py_int (JBool b) = Inr (if b then 1 else 0)"
| "py_int (JFloat (Fin x)) = Inr (if 0 \<le> x then \<lfloor>x\<rfloor> else \<lceil>x\<rceil>)"
| "py_int (JFloat NaN) = Inl ValueError"
| "py_int (JFloat PInf) = Inl OverflowError"
| "py_int (JFloat NInf) = Inl OverflowError"
| "py_int (JStr s) = (case int_of_str s of None \<Rightarrow> Inl ValueError | Some n \<Rightarrow> Inr n)"
| "py_int JNull = Inl TypeError"
| "py_int (JArr xs) = Inl TypeError"
| "py_int (JObj kvs) = Inl TypeError"

section \<open>Frames\<close>

text \<open>A row is a dict from column names to cells, kept as an association list in column
  order; a frame is its list of column names and its rows. \<^verbatim>\<open>pd.DataFrame(rows)\<close>
  takes the columns from the keys of the dicts in order of first appearance and fills a
  key that a row lacks with NaN. The frame of an empty list has no columns.\<close>

type_synonym dict = "(string \<times> json) list"

record frame =
  columns :: "string list"
  rows :: "dict list"

definition cell :: "dict \<Rightarrow> string \<Rightarrow> json" where
  "cell r c = (case map_of r c of None \<Rightarrow> JFloat NaN | Some v \<Rightarrow> v)"

definition dict_set :: "dict \<Rightarrow> string \<Rightarrow> json \<Rightarrow> dict" where
  "dict_set d k v =
     (if k \<in> set (map fst d) then map (\<lambda>kv. if fst kv = k then (k, v) else kv) d
      else d @ [(k, v)])"

definition DataFrame :: "dict list \<Rightarrow> frame" where
  "DataFrame rs =
     (let cols = rev (remdups (rev (concat (map (map fst) rs))))
      in \<lparr>columns = cols, rows = map (\<lambda>r. map (\<lambda>c. (c, cell r c)) cols) rs\<rparr>)"

section \<open>The Indicator Fetcher\<close>

text \<open>The network is a function from the requested URL to either a connection failure
  or a response; a response has a status code and a body, which decodes to a JSON value
  or not at all. Every request is appended to a log, so that the number of requests a
  call makes can be read off.\<close>

record response =
  status_code :: nat
  body :: "json option"

type_synonym server = "string \<Rightarrow> error + response"

definition requests_get :: "server \<Rightarrow> string \<Rightarrow> string list \<Rightarrow> (error + response) \<times> string list" where
  "requests_get srv url reqs = (srv url, reqs @ [url])"

definition raise_for_status :: "response \<Rightarrow> error + unit" where
  "raise_for_status r =
     (if 400 \<le> status_code r \<and> status_code r < 600 then Inl (HTTPError (status_code r))
      else Inr ())"

definition response_json :: "response \<Rightarrow> error + json" where
  "response_json r = (case body r of None \<Rightarrow> Inl JSONDecodeError | Some j \<Rightarrow> Inr j)"

definition indicator_url :: "string \<Rightarrow> string" where
  "indicator_url indicator =
     ''https://api.worldbank.org/v2/country/all/indicator/'' @ indicator
       @ ''?format=json&per_page=20000''"

text \<open>The dict built for one observation; the four subscripts and the call of
  \<^verbatim>\<open>int\<close> are evaluated in the order of the dict display.\<close>

definition make_row :: "string \<Rightarrow> json \<Rightarrow> error + dict" where
  "make_row indicator rec =
     bind_e (getitem_str rec ''countryiso3code'') (\<lambda>code.
     bind_e (getitem_str rec ''country'') (\<lambda>c.
     bind_e (getitem_str c ''value'') (\<lambda>name.
     bind_e (getitem_str rec ''date'') (\<lambda>d.
     bind_e (py_int d) (\<lambda>y.
     bind_e (getitem_str rec ''value'') (\<lambda>v.
       Inr (dict_set [(''country_code'', code), (''country'', name), (''year'', JInt y)]
              indicator v)))))))"

fun collect_rows :: "string \<Rightarrow> json list \<Rightarrow> error + dict list" where
  "collect_rows indicator [] = Inr []"
| "collect_rows indicator (rec # recs) =
     bind_e (make_row indicator rec) (\<lambda>row.
     bind_e (collect_rows indicator recs) (\<lambda>rows. Inr (row # rows)))"

definition parse_response :: "string \<Rightarrow> response \<Rightarrow> error + frame" where
  "parse_response indicator r =
     bind_e (raise_for_status r) (\<lambda>_.
     bind_e (response_json r) (\<lambda>json_data.
     bind_e (getitem_int json_data 1) (\<lambda>records.
     bind_e (py_iter records) (\<lambda>recs.
     bind_e (collect_rows indicator recs) (\<lambda>rows. Inr (DataFrame rows))))))"

definition fetch_indicator :: "server \<Rightarrow> string \<Rightarrow> string list \<Rightarrow> (error + frame) \<times> string list" where
  "fetch_indicator srv indicator reqs =
     (case requests_get srv (indicator_url indicator) reqs of
        (Inl e, reqs') \<Rightarrow> (Inl e, reqs')
      | (Inr r, reqs') \<Rightarrow> (parse_response indicator r, reqs'))"

section \<open>The Dataset Builder\<close>

subsection \<open>Outer join on the key columns\<close>

text \<open>\<^verbatim>\<open>pd.merge(left, right, on=[...], how="outer")\<close>: a key column missing from
  either frame is a KeyError, a list or dict in a key column cannot be hashed, a value
  column that both frames have gets the suffixes \<^verbatim>\<open>_x\<close> and \<^verbatim>\<open>_y\<close>. Every
  key of either frame gives the pairs of its left and right rows, or its rows of the one
  frame filled with NaN for the columns of the other. pandas lists the keys in sorted
  order; the model lists them in order of first appearance, and no property below depends
  on the order of rows. Key cells are compared as values, which is Python's equality on
  strings, integers and None.\<close>

definition merge_keys :: "string list" where
  "merge_keys = [''country_code'', ''country'', ''year'']"

definition key_of :: "dict \<Rightarrow> json list" where
  "key_of r = map (cell r) merge_keys"

fun unhashable :: "json \<Rightarrow> bool" where
  "unhashable (JArr xs) = True"
| "unhashable (JObj kvs) = True"
| "unhashable v = False"

definition value_columns :: "frame \<Rightarrow> string list" where
  "value_columns f = filter (\<lambda>c. c \<notin> set merge_keys) (columns f)"

definition suffixed :: "string list \<Rightarrow> string \<Rightarrow> string \<Rightarrow> string" where
  "suffixed others sfx c = (if c \<in> set others then c @ sfx else c)"

definition side_cell :: "dict option \<Rightarrow> string \<Rightarrow> json" where
  "side_cell ro c = (case ro of None \<Rightarrow> JFloat NaN | Some r \<Rightarrow> cell r c)"

definition join_row :: "frame \<Rightarrow> frame \<Rightarrow> dict option \<Rightarrow> dict option \<Rightarrow> dict" where
  "join_row left right lo ro =
     map (\<lambda>c. if c \<in> set merge_keys
               then (c, case lo of None \<Rightarrow> side_cell ro c | Some l \<Rightarrow> cell l c)
               else (suffixed (value_columns right) ''_x'' c, side_cell lo c))
         (columns left)
     @ map (\<lambda>c. (suffixed (value_columns left) ''_y'' c, side_cell ro c))
         (value_columns right)"

definition rows_at :: "frame \<Rightarrow> json list \<Rightarrow> dict list" where
  "rows_at f k = filter (\<lambda>r. key_of r = k) (rows f)"

definition join_key :: "frame \<Rightarrow> frame \<Rightarrow> json list \<Rightarrow> dict list" where
  "join_key left right k =
     (let ls = rows_at left k; rs = rows_at right k
      in if rs = [] then map (\<lambda>l. join_row left right (Some l) None) ls
         else if ls = [] then map (\<lambda>r. join_row left right None (Some r)) rs
         else concat (map (\<lambda>l. map (\<lambda>r. join_row left right (Some l) (Some r)) rs) ls))"

definition all_keys :: "frame \<Rightarrow> frame \<Rightarrow> json list list" where
  "all_keys left right = rev (remdups (rev (map key_of (rows left) @ map key_of (rows right))))"

definition pd_merge :: "frame \<Rightarrow> frame \<Rightarrow> error + frame" where
  "pd_merge left right =
     (case filter (\<lambda>k. k \<notin> set (columns left) \<or> k \<notin> set (columns right)) merge_keys of
        k # ks \<Rightarrow> Inl (KeyError k)
      | [] \<Rightarrow>
          if \<exists>r \<in> set (rows left @ rows right). \<exists>v \<in> set (key_of r). unhashable v
          then Inl TypeError
          else Inr \<lparr>columns = map fst (join_row left right None None),
                    rows = concat (map (join_key left right) (all_keys left right))\<rparr>)"

text \<open>\<^verbatim>\<open>functools.reduce\<close> without an initial value.\<close>

fun reduce_from :: "('a \<Rightarrow> 'a \<Rightarrow> error + 'a) \<Rightarrow> 'a \<Rightarrow> 'a list \<Rightarrow> error + 'a" where
  "reduce_from f acc [] = Inr acc"
| "reduce_from f acc (x # xs) = bind_e (f acc x) (\<lambda>acc'. reduce_from f acc' xs)"

definition reduce :: "('a \<Rightarrow> 'a \<Rightarrow> error + 'a) \<Rightarrow> 'a list \<Rightarrow> error + 'a" where
  "reduce f xs = (case xs of [] \<Rightarrow> Inl TypeError | x # rest \<Rightarrow> reduce_from f x rest)"

subsection \<open>Filters\<close>

text \<open>A boolean mask keeps the rows at which it is true. Comparing a column with a number
  is false at a missing cell and a TypeError when the column holds a string, list or
  dict; \<^verbatim>\<open>.str.len()\<close> is the length of a string, list or dict and NaN elsewhere.\<close>

fun ge_int :: "json \<Rightarrow> int \<Rightarrow> bool" where
  "ge_int (JInt n) k = (k \<le> n)"
| "ge_int (JBool b) k = (k \<le> (if b then 1 else 0))"
| "ge_int (JFloat (Fin x)) k = (real_of_int k \<le> x)"
| "ge_int (JFloat PInf) k = True"
| "ge_int v k = False"

fun orderable :: "json \<Rightarrow> bool" where
  "orderable (JStr s) = False"
| "orderable (JArr xs) = False"
| "orderable (JObj kvs) = False"
| "orderable v = True"

fun str_len :: "json \<Rightarrow> nat option" where
  "str_len (JStr s) = Some (length s)"
| "str_len (JArr xs) = Some (length xs)"
| "str_len (JObj kvs) = Some (length kvs)"
| "str_len v = None"

definition isna :: "json \<Rightarrow> bool" where
  "isna v = (v = JNull \<or> v = JFloat NaN)"

definition filter_year_code :: "frame \<Rightarrow> error + frame" where
  "filter_year_code f =
     (if ''year'' \<notin> set (columns f) then Inl (KeyError ''year'')
      else if \<exists>r \<in> set (rows f). \<not> orderable (cell r ''year'') then Inl TypeError
      else if ''country_code'' \<notin> set (columns f) then Inl (KeyError ''country_code'')
      else Inr (f\<lparr>rows := filter (\<lambda>r. ge_int (cell r ''year'') 1990
                                      \<and> str_len (cell r ''country_code'') = Some 3) (rows f)\<rparr>))"

definition filter_countries :: "string list \<Rightarrow> frame \<Rightarrow> error + frame" where
  "filter_countries countries f =
     (if ''country_code'' \<notin> set (columns f) then Inl (KeyError ''country_code'')
      else Inr (f\<lparr>rows := filter (\<lambda>r. cell r ''country_code'' \<in> set (map JStr countries))
                             (rows f)\<rparr>))"

definition dropna :: "string list \<Rightarrow> frame \<Rightarrow> error + frame" where
  "dropna required f =
     (case filter (\<lambda>c. c \<notin> set (columns f)) required of
        c # cs \<Rightarrow> Inl (KeyError c)
      | [] \<Rightarrow> Inr (f\<lparr>rows := filter (\<lambda>r. \<forall>c \<in> set required. \<not> isna (cell r c)) (rows f)\<rparr>))"

subsection \<open>Renaming and the derived columns\<close>

definition new_names :: "(string \<times> string) list" where
  "new_names =
     [(''EG.FEC.RNEW.ZS'', ''renewable_share''),
      (''EG.USE.PCAP.KG.OE'', ''energy_use_per_capita''),
      (''SP.POP.TOTL'', ''population''),
      (''NY.GDP.PCAP.KD'', ''gdp_per_capita'')]"

definition rename_col :: "string \<Rightarrow> string" where
  "rename_col c = (case map_of new_names c of None \<Rightarrow> c | Some n \<Rightarrow> n)"

definition rename :: "frame \<Rightarrow> frame" where
  "rename f =
     \<lparr>columns = map rename_col (columns f),
      rows = map (map (\<lambda>kv. (rename_col (fst kv), snd kv))) (rows f)\<rparr>"

text \<open>Arithmetic of float columns, cell by cell: a missing operand gives NaN, a division
  by zero gives an infinity (NaN for zero by zero) and never an exception, and a string,
  list or dict as an operand is a TypeError.\<close>

fun fmul :: "pyfloat \<Rightarrow> pyfloat \<Rightarrow> pyfloat" where
  "fmul (Fin a) (Fin b) = Fin (a * b)"
| "fmul NaN y = NaN"
| "fmul x NaN = NaN"
| "fmul (Fin a) PInf = (if a = 0 then NaN else if 0 < a then PInf else NInf)"
| "fmul (Fin a) NInf = (if a = 0 then NaN else if 0 < a then NInf else PInf)"
| "fmul PInf (Fin b) = (if b = 0 then NaN else if 0 < b then PInf else NInf)"
| "fmul NInf (Fin b) = (if b = 0 then NaN else if 0 < b then NInf else PInf)"
| "fmul PInf PInf = PInf"
| "fmul PInf NInf = NInf"
| "fmul NInf PInf = NInf"
| "fmul NInf NInf = PInf"

fun fdiv :: "pyfloat \<Rightarrow> pyfloat \<Rightarrow> pyfloat" where
  "fdiv (Fin a) (Fin b) =
     (if b = 0 then (if a = 0 then NaN else if 0 < a then PInf else NInf) else Fin (a / b))"
| "fdiv NaN y = NaN"
| "fdiv x NaN = NaN"
| "fdiv (Fin a) PInf = Fin 0"
| "fdiv (Fin a) NInf = Fin 0"
| "fdiv PInf (Fin b) = (if 0 \<le> b then PInf else NInf)"
| "fdiv NInf (Fin b) = (if 0 \<le> b then NInf else PInf)"
| "fdiv PInf PInf = NaN"
| "fdiv PInf NInf = NaN"
| "fdiv NInf PInf = NaN"
| "fdiv NInf NInf = NaN"

fun as_float :: "json \<Rightarrow> pyfloat option" where
  "as_float (JInt n) = Some (Fin (real_of_int n))"
| "as_float (JFloat x) = Some x"
| "as_float (JBool b) = Some (Fin (if b then 1 else 0))"
| "as_float JNull = Some NaN"
| "as_float v = None"

definition cell_op :: "(pyfloat \<Rightarrow> pyfloat \<Rightarrow> pyfloat) \<Rightarrow> json \<Rightarrow> json \<Rightarrow> error + json" where
  "cell_op f a b =
     (if isna a \<or> isna b then Inr (JFloat NaN)
      else (case (as_float a, as_float b) of
              (Some x, Some y) \<Rightarrow> Inr (JFloat (f x y))
            | _ \<Rightarrow> Inl TypeError))"

fun sequence_e :: "(error + 'a) list \<Rightarrow> error + 'a list" where
  "sequence_e [] = Inr []"
| "sequence_e (m # ms) = bind_e m (\<lambda>x. bind_e (sequence_e ms) (\<lambda>xs. Inr (x # xs)))"

definition column_op :: "(pyfloat \<Rightarrow> pyfloat \<Rightarrow> pyfloat) \<Rightarrow> frame \<Rightarrow> string \<Rightarrow> string \<Rightarrow> error + json list" where
  "column_op f df a b =
     (if a \<notin> set (columns df) then Inl (KeyError a)
      else if b \<notin> set (columns df) then Inl (KeyError b)
      else sequence_e (map (\<lambda>r. cell_op f (cell r a) (cell r b)) (rows df)))"

definition set_column :: "frame \<Rightarrow> string \<Rightarrow> json list \<Rightarrow> frame" where
  "set_column df name vs =
     \<lparr>columns = (if name \<in> set (columns df) then columns df else columns df @ [name]),
      rows = map (\<lambda>rv. dict_set (fst rv) name (snd rv)) (zip (rows df) vs)\<rparr>"

subsection \<open>\<^verbatim>\<open>build_dataset\<close>\<close>

definition indicators :: "string list" where
  "indicators = [''EG.FEC.RNEW.ZS'', ''EG.USE.PCAP.KG.OE'', ''SP.POP.TOTL'', ''NY.GDP.PCAP.KD'']"

fun fetch_frames :: "server \<Rightarrow> string list \<Rightarrow> string list \<Rightarrow> (error + frame list) \<times> string list" where
  "fetch_frames srv [] reqs = (Inr [], reqs)"
| "fetch_frames srv (code # codes) reqs =
     (case fetch_indicator srv code reqs of
        (Inl e, reqs') \<Rightarrow> (Inl e, reqs')
      | (Inr f, reqs') \<Rightarrow>
          (case fetch_frames srv codes reqs' of
             (Inl e, reqs'') \<Rightarrow> (Inl e, reqs'')
           | (Inr fs, reqs'') \<Rightarrow> (Inr (f # fs), reqs'')))"

text \<open>The table before the filters: the reduction of the fetched frames by the outer
  join.\<close>

definition merge_frames :: "frame list \<Rightarrow> error + frame" where
  "merge_frames frames = reduce pd_merge frames"

text \<open>The steps of \<^verbatim>\<open>build_dataset\<close> after the merge, in the order of the source.\<close>

definition clean_and_derive :: "string list \<Rightarrow> frame \<Rightarrow> error + frame" where
  "clean_and_derive countries merged =
     bind_e (filter_year_code merged) (\<lambda>m1.
     bind_e (filter_countries countries m1) (\<lambda>m2.
     bind_e (dropna [''EG.FEC.RNEW.ZS'', ''EG.USE.PCAP.KG.OE''] m2) (\<lambda>m3.
     let m4 = rename m3 in
     bind_e (column_op fmul m4 ''energy_use_per_capita'' ''population'') (\<lambda>total.
     let m5 = set_column m4 ''total_energy_use'' total in
     bind_e (column_op fdiv m5 ''energy_use_per_capita'' ''gdp_per_capita'') (\<lambda>intensity.
     Inr (set_column m5 ''energy_intensity'' intensity))))))"

definition build_dataset :: "server \<Rightarrow> string list \<Rightarrow> string list \<Rightarrow> (error + frame) \<times> string list" where
  "build_dataset srv countries reqs =
     (case fetch_frames srv indicators reqs of
        (Inl e, reqs') \<Rightarrow> (Inl e, reqs')
      | (Inr frames, reqs') \<Rightarrow>
          (bind_e (merge_frames frames) (clean_and_derive countries), reqs'))"

section \<open>The Forecaster\<close>









section \<open>Notions used in the statements\<close>

text \<open>A decoded response has a second element when it is a list of at least two
  elements.\<close>

fun has_second :: "json \<Rightarrow> bool" where
  "has_second (JArr (x # y # rest)) = True"
| "has_second j = False"

text \<open>The fields that the fetcher reads from an observation object.\<close>

fun has_value_field :: "json \<Rightarrow> bool" where
  "has_value_field (JObj kvs) = (''value'' \<in> set (map fst kvs))"
| "has_value_field j = False"

fun has_expected_fields :: "json \<Rightarrow> bool" where
  "has_expected_fields (JObj kvs) =
     (''countryiso3code'' \<in> set (map fst kvs)
      \<and> (case map_of kvs ''country'' of None \<Rightarrow> False | Some c \<Rightarrow> has_value_field c)
      \<and> ''date'' \<in> set (map fst kvs)
      \<and> ''value'' \<in> set (map fst kvs))"
| "has_expected_fields j = False"

text \<open>The key of an observation: its country code and the year read from its date.\<close>

definition obs_key :: "json \<Rightarrow> (json \<times> json) option" where
  "obs_key rec =
     (case (getitem_str rec ''countryiso3code'', bind_e (getitem_str rec ''date'') py_int) of
        (Inr c, Inr y) \<Rightarrow> Some (c, JInt y)
      | _ \<Rightarrow> None)"

definition row_key :: "dict \<Rightarrow> json \<times> json" where
  "row_key r = (cell r ''country_code'', cell r ''year'')"



subsection \<open>Example data\<close>

definition observation :: "string \<Rightarrow> string \<Rightarrow> string \<Rightarrow> json \<Rightarrow> json" where
  "observation code name date v =
     JObj [(''countryiso3code'', JStr code), (''country'', JObj [(''value'', JStr name)]),
           (''date'', JStr date), (''value'', v)]"

definition page :: "nat \<Rightarrow> json list \<Rightarrow> error + response" where
  "page status recs =
     Inr \<lparr>status_code = status, body = Some (JArr [JObj [(''page'', JInt 1)], JArr recs])\<rparr>"

definition usa_2020 :: "json \<Rightarrow> json" where
  "usa_2020 v = observation ''USA'' ''United States'' ''2020'' v"

text \<open>A server with one page per indicator: \<open>gdp\<close> is the GDP per capita of the USA in
  2020.\<close>

definition example_server :: "json \<Rightarrow> server" where
  "example_server gdp url =
    (if url = indicator_url ''EG.FEC.RNEW.ZS''
       then page 200 [usa_2020 (JFloat (Fin 10)), observation ''FRA'' ''France'' ''1980'' (JFloat (Fin 5))]
     else if url = indicator_url ''EG.USE.PCAP.KG.OE'' then page 200 [usa_2020 (JFloat (Fin 100))]
     else if url = indicator_url ''SP.POP.TOTL'' then page 200 [usa_2020 (JInt 3)]
     else if url = indicator_url ''NY.GDP.PCAP.KD'' then page 200 [usa_2020 gdp]
     else Inl ConnectionError)"



definition indicator_row :: "string \<Rightarrow> string \<Rightarrow> int \<Rightarrow> string \<Rightarrow> json \<Rightarrow> dict" where
  "indicator_row code name y indicator v =
     [(''country_code'', JStr code), (''country'', JStr name), (''year'', JInt y), (indicator, v)]"

section \<open>Properties of the Indicator Fetcher\<close>

lemma bind_e_Inr: "bind_e m f = Inr y \<longleftrightarrow> (\<exists>x. m = Inr x \<and> f x = Inr y)"
  by (cases m) (simp_all add: bind_e_def)

lemma bind_e_simps: "bind_e (Inl e) f = Inl e" "bind_e (Inr x) f = f x"
  by (simp_all add: bind_e_def)

lemma fetch_indicator_requests:
  "snd (fetch_indicator srv indicator reqs) = reqs @ [indicator_url indicator]"
  by (simp add: fetch_indicator_def requests_get_def split: sum.splits)

lemma fetch_indicator_eq:
  "srv (indicator_url indicator) = Inr r \<Longrightarrow>
   fetch_indicator srv indicator reqs = (parse_response indicator r, reqs @ [indicator_url indicator])"
  by (simp add: fetch_indicator_def requests_get_def)

lemma make_row_Inr:
  assumes "make_row indicator rec = Inr row"
  shows "\<exists>code c name d y v.
           getitem_str rec ''countryiso3code'' = Inr code \<and> getitem_str rec ''country'' = Inr c
           \<and> getitem_str c ''value'' = Inr name \<and> getitem_str rec ''date'' = Inr d
           \<and> py_int d = Inr y \<and> getitem_str rec ''value'' = Inr v
           \<and> row = dict_set [(''country_code'', code), (''country'', name), (''year'', JInt y)] indicator v"
  using assms unfolding make_row_def bind_e_Inr by blast

lemma getitem_str_Inr: "getitem_str j k = Inr v \<Longrightarrow> \<exists>kvs. j = JObj kvs \<and> map_of kvs k = Some v"
  by (cases j) (auto split: option.splits)

lemma make_row_fields: "make_row indicator rec = Inr row \<Longrightarrow> has_expected_fields rec"
  apply (drule make_row_Inr)
  apply clarsimp
  apply (drule getitem_str_Inr)+
  apply clarsimp
  apply (auto dest: map_of_SomeD simp: rev_image_eqI)
  done

lemma collect_rows_Inl:
  "rec \<in> set recs \<Longrightarrow> make_row indicator rec = Inl e \<Longrightarrow> \<exists>e'. collect_rows indicator recs = Inl e'"
proof (induction recs)
  case Nil
  then show ?case by simp
next
  case (Cons a recs)
  show ?case
  proof (cases "make_row indicator a")
    case (Inl e1)
    then show ?thesis by (simp add: bind_e_simps)
  next
    case (Inr row)
    with Cons have "rec \<in> set recs" by auto
    with Cons obtain e' where "collect_rows indicator recs = Inl e'" by blast
    with Inr show ?thesis by (simp add: bind_e_simps)
  qed
qed

lemma collect_rows_Inr:
  "collect_rows indicator recs = Inr rws \<Longrightarrow> list_all2 (\<lambda>rec row. make_row indicator rec = Inr row) recs rws"
proof (induction recs arbitrary: rws)
  case Nil
  then show ?case by simp
next
  case (Cons a recs)
  then show ?case by (auto simp: bind_e_Inr)
qed

lemma parse_response_Inr:
  assumes "parse_response indicator r = Inr f"
  shows "\<exists>j records recs rws. \<not> (400 \<le> status_code r \<and> status_code r < 600) \<and> body r = Some j
     \<and> getitem_int j 1 = Inr records \<and> py_iter records = Inr recs
     \<and> collect_rows indicator recs = Inr rws \<and> f = DataFrame rws"
  using assms unfolding parse_response_def bind_e_Inr raise_for_status_def response_json_def
  by (auto split: if_splits option.splits)

lemma has_second_JArr: "has_second (JArr xs) \<longleftrightarrow> 2 \<le> length xs"
proof (cases xs)
  case Nil
  then show ?thesis by simp
next
  case (Cons a ys)
  then show ?thesis by (cases ys) auto
qed

lemma no_second_fails:
  assumes "\<not> has_second j" "getitem_int j 1 = Inr records" "py_iter records = Inr recs"
  shows "\<exists>e. collect_rows indicator recs = Inl e"
proof (cases j)
  case (JStr s)
  with assms(2) obtain c where "records = JStr [c]"
    by (auto split: option.splits)
  with assms(3) have "recs = [JStr [c]]" by auto
  then show ?thesis by (simp add: make_row_def bind_e_simps)
next
  case (JArr xs)
  with assms(1) have "length xs < 2"
    by (simp add: has_second_JArr)
  with JArr assms(2) show ?thesis by (auto simp: norm_index_def split: option.splits if_splits)
qed (use assms in auto)

lemma parse_response_no_second:
  assumes "body r = Some j" "\<not> has_second j"
  shows "\<exists>e. parse_response indicator r = Inl e"
proof (cases "parse_response indicator r")
  case (Inr f)
  from parse_response_Inr[OF Inr] assms no_second_fails[of j _ _ indicator] show ?thesis
    by fastforce
qed simp

lemma parse_response_missing_field:
  assumes "body r = Some (JArr (meta # JArr recs # rest))" "rec \<in> set recs" "\<not> has_expected_fields rec"
  shows "\<exists>e. parse_response indicator r = Inl e"
proof (cases "parse_response indicator r")
  case (Inr f)
  from parse_response_Inr[OF Inr] assms(1)
  obtain rws where c: "collect_rows indicator recs = Inr rws"
    by (auto simp: norm_index_def)
  from assms(3) make_row_fields obtain e where "make_row indicator rec = Inl e"
    by (cases "make_row indicator rec") auto
  from collect_rows_Inl[OF assms(2) this] c show ?thesis by auto
qed simp

lemma parse_response_status:
  "400 \<le> status_code r \<and> status_code r < 600 \<Longrightarrow> parse_response indicator r = Inl (HTTPError (status_code r))"
  by (simp add: parse_response_def raise_for_status_def bind_e_simps)

text \<open>Claim C8, as amended. \<^verbatim>\<open>raise_for_status\<close> raises for the client and
  server error statuses 400 to 599 only. When the status is one of these, or the decoded
  response is not a list with a second element, or some observation of the second element
  lacks a field that the fetcher reads, the fetch ends in an exception: no frame is
  returned, and exactly one request was made.\<close>

theorem fetch_fails_amended:
  assumes "srv (indicator_url indicator) = Inr r"
    and "(400 \<le> status_code r \<and> status_code r < 600)
         \<or> (\<exists>j. body r = Some j \<and> \<not> has_second j)
         \<or> (\<exists>meta recs rest. body r = Some (JArr (meta # JArr recs # rest))
               \<and> (\<exists>rec \<in> set recs. \<not> has_expected_fields rec))"
  shows "\<exists>e. fetch_indicator srv indicator reqs = (Inl e, reqs @ [indicator_url indicator])"
proof -
  from assms(2) have "\<exists>e. parse_response indicator r = Inl e"
    using parse_response_status parse_response_no_second parse_response_missing_field
    by blast
  with assms(1) show ?thesis by (simp add: fetch_indicator_eq)
qed

lemmas fetch_eval =
  fetch_indicator_def requests_get_def parse_response_def raise_for_status_def
  response_json_def bind_e_simps norm_index_def make_row_def int_of_str_def strip_def
  is_space_def digit_val_def dict_set_def DataFrame_def cell_def page_def observation_def
  usa_2020_def indicator_row_def merge_keys_def

text \<open>Claim C5. A response without an error status whose decoded list has as second
  element the one observation of the USA in 2020 with value 331000000 gives a frame of
  exactly one row: country code USA, country United States, the integer year 2020 and the
  value in the column named after the indicator.\<close>

theorem fetch_single_observation:
  assumes "srv (indicator_url indicator) = Inr r"
    and "\<not> (400 \<le> status_code r \<and> status_code r < 600)"
    and "body r = Some (JArr (meta # JArr [usa_2020 (JInt 331000000)] # rest))"
    and "indicator \<notin> set merge_keys"
  shows "fetch_indicator srv indicator reqs =
           (Inr \<lparr>columns = [''country_code'', ''country'', ''year'', indicator],
                  rows = [indicator_row ''USA'' ''United States'' 2020 indicator (JInt 331000000)]\<rparr>,
            reqs @ [indicator_url indicator])"
  using assms by (simp add: fetch_eval)

theorem fetch_single_observation_witness:
  "fetch_indicator (\<lambda>url. page 200 [usa_2020 (JInt 331000000)]) ''SP.POP.TOTL'' [] =
     (Inr \<lparr>columns = [''country_code'', ''country'', ''year'', ''SP.POP.TOTL''],
            rows = [[(''country_code'', JStr ''USA''), (''country'', JStr ''United States''),
                     (''year'', JInt 2020), (''SP.POP.TOTL'', JInt 331000000)]]\<rparr>,
      [indicator_url ''SP.POP.TOTL''])"
  using fetch_single_observation [of "\<lambda>url. page 200 [usa_2020 (JInt 331000000)]" "''SP.POP.TOTL''"
      "\<lparr>status_code = 200, body = Some (JArr [JObj [(''page'', JInt 1)], JArr [usa_2020 (JInt 331000000)]])\<rparr>"
      "JObj [(''page'', JInt 1)]" "[]" "[]"]
  by (simp add: page_def indicator_row_def merge_keys_def)

text \<open>Claim C8 as stated fails for a status outside the success range 200 to 299 that
  is no error status either: a response with status 300 and a well-formed body is
  parsed and its rows are returned.\<close>

theorem fetch_redirect_status_counterexample:
  "\<not> (\<forall>srv indicator reqs r.
        srv (indicator_url indicator) = Inr r \<and> \<not> (200 \<le> status_code r \<and> status_code r < 300)
        \<longrightarrow> (\<exists>e. fst (fetch_indicator srv indicator reqs) = Inl e))"
proof
  assume a: "\<forall>srv indicator reqs r.
        srv (indicator_url indicator) = Inr r \<and> \<not> (200 \<le> status_code r \<and> status_code r < 300)
        \<longrightarrow> (\<exists>e. fst (fetch_indicator srv indicator reqs) = Inl e)"
  have "\<exists>e. fst (fetch_indicator (\<lambda>url. page 300 [usa_2020 (JInt 331000000)]) ''SP.POP.TOTL'' []) = Inl e"
    using a[rule_format, of "\<lambda>url. page 300 [usa_2020 (JInt 331000000)]" "''SP.POP.TOTL''"
        "\<lparr>status_code = 300, body = Some (JArr [JObj [(''page'', JInt 1)], JArr [usa_2020 (JInt 331000000)]])\<rparr>" "[]"]
    by (simp add: page_def)
  then show False by (simp add: fetch_eval)
qed

theorem fetch_fails_amended_witness:
  "fetch_indicator (\<lambda>url. page 404 []) ''SP.POP.TOTL'' [] = (Inl (HTTPError 404), [indicator_url ''SP.POP.TOTL''])
   \<and> (\<exists>e. fetch_indicator (\<lambda>url. page 200 [JObj [(''date'', JStr ''2020'')]]) ''SP.POP.TOTL'' []
            = (Inl e, [indicator_url ''SP.POP.TOTL'']))"
  using fetch_fails_amended [of "\<lambda>url. page 200 [JObj [(''date'', JStr ''2020'')]]" "''SP.POP.TOTL''"
      "\<lparr>status_code = 200, body = Some (JArr [JObj [(''page'', JInt 1)], JArr [JObj [(''date'', JStr ''2020'')]]])\<rparr>" "[]"]
  by (simp add: fetch_eval)

lemma map_of_tabulate:
  "map_of (map (\<lambda>c. (c, f c)) cols) k = (if k \<in> set cols then Some (f k) else None)"
  by (induction cols) auto

lemma cell_normalise:
  assumes "fst ` set r \<subseteq> set cols"
  shows "cell (map (\<lambda>c. (c, cell r c)) cols) k = cell r k"
proof (cases "k \<in> set cols")
  case True
  then show ?thesis by (simp add: cell_def[of "map _ _"] map_of_tabulate)
next
  case False
  with assms have "k \<notin> fst ` set r" by auto
  then have "map_of r k = None" by (simp add: map_of_eq_None_iff)
  with False show ?thesis by (simp add: cell_def map_of_tabulate)
qed

lemma DataFrame_rows:
  "rows (DataFrame rs) = map (\<lambda>r. map (\<lambda>c. (c, cell r c)) (columns (DataFrame rs))) rs"
  by (simp add: DataFrame_def Let_def)

lemma DataFrame_columns_set:
  "set (columns (DataFrame rs)) = (\<Union>r \<in> set rs. fst ` set r)"
  by (auto simp: DataFrame_def Let_def)


lemma DataFrame_row_keys:
  "map row_key (rows (DataFrame rs)) = map row_key rs"
proof -
  have "\<And>r. r \<in> set rs \<Longrightarrow> fst ` set r \<subseteq> set (columns (DataFrame rs))"
    by (auto simp: DataFrame_columns_set)
  then show ?thesis
    by (simp add: DataFrame_rows row_key_def cell_normalise)
qed

lemma make_row_key:
  assumes "make_row indicator rec = Inr row" "indicator \<notin> {''country_code'', ''year''}"
  shows "obs_key rec = Some (row_key row)"
proof -
  from make_row_Inr[OF assms(1)] obtain code c name d y v where
    h: "getitem_str rec ''countryiso3code'' = Inr code" "getitem_str rec ''date'' = Inr d"
       "py_int d = Inr y"
       "row = dict_set [(''country_code'', code), (''country'', name), (''year'', JInt y)] indicator v"
    by blast
  from h(4) assms(2) have "row_key row = (code, JInt y)"
    by (auto simp: row_key_def dict_set_def cell_def)
  with h show ?thesis by (simp add: obs_key_def bind_e_simps)
qed

lemma collect_rows_keys:
  assumes "collect_rows indicator recs = Inr rws" "indicator \<notin> {''country_code'', ''year''}"
  shows "map obs_key recs = map (\<lambda>row. Some (row_key row)) rws"
  using collect_rows_Inr[OF assms(1)] assms(2)
  by (induction recs rws rule: list_all2_induct) (auto simp: make_row_key)

text \<open>Claim C9, as amended. The fetcher does not remove duplicates: a successful fetch
  returns one row for every observation of the response, in order, with the country code
  of the observation and the year read from its date. The table therefore has at most one
  row per pair of country code and year whenever the observations of the response have
  pairwise different pairs. (The indicator is not itself named like a key column.)\<close>

theorem fetch_rows_amended:
  assumes "fetch_indicator srv indicator reqs = (Inr f, reqs')"
    and "indicator \<notin> {''country_code'', ''year''}"
  shows "\<exists>r j records recs.
           srv (indicator_url indicator) = Inr r \<and> body r = Some j
           \<and> getitem_int j 1 = Inr records \<and> py_iter records = Inr recs
           \<and> map (\<lambda>row. Some (row_key row)) (rows f) = map obs_key recs
           \<and> (distinct (map obs_key recs) \<longrightarrow> distinct (map row_key (rows f)))"
proof -
  from assms(1) obtain r where r: "srv (indicator_url indicator) = Inr r"
      and p: "parse_response indicator r = Inr f"
    by (cases "srv (indicator_url indicator)")
       (auto simp: fetch_indicator_def requests_get_def)
  from parse_response_Inr[OF p] obtain j records recs rws where
    h: "body r = Some j" "getitem_int j 1 = Inr records" "py_iter records = Inr recs"
       "collect_rows indicator recs = Inr rws" "f = DataFrame rws"
    by blast
  have k: "map (\<lambda>row. Some (row_key row)) (rows f) = map obs_key recs"
  proof -
    have "map (\<lambda>row. Some (row_key row)) (rows f) = map Some (map row_key (rows f))"
      by simp
    also have "\<dots> = map Some (map row_key rws)"
      by (simp only: h(5) DataFrame_row_keys)
    also have "\<dots> = map obs_key recs"
      using collect_rows_keys[OF h(4) assms(2)] by simp
    finally show ?thesis .
  qed
  have "distinct (map obs_key recs) \<Longrightarrow> distinct (map row_key (rows f))"
  proof -
    assume "distinct (map obs_key recs)"
    with k have "distinct (map Some (map row_key (rows f)))" by (simp add: o_def)
    then show ?thesis
      using distinct_map[of Some "map row_key (rows f)"] by blast
  qed
  with r h k show ?thesis by blast
qed

theorem fetch_rows_amended_witness:
  "\<exists>f. fetch_indicator (\<lambda>url. page 200 [usa_2020 (JInt 1), observation ''USA'' ''United States'' ''2021'' (JInt 2)])
          ''SP.POP.TOTL'' [] = (Inr f, [indicator_url ''SP.POP.TOTL''])
     \<and> map row_key (rows f) = [(JStr ''USA'', JInt 2020), (JStr ''USA'', JInt 2021)]
     \<and> distinct (map row_key (rows f))"
  using fetch_rows_amended [of "\<lambda>url. page 200 [usa_2020 (JInt 1), observation ''USA'' ''United States'' ''2021'' (JInt 2)]"
      "''SP.POP.TOTL''" "[]"]
  by (simp add: fetch_eval row_key_def)

text \<open>Claim C9 as stated fails: a response that lists the same observation twice gives a
  table with two rows for the same country code and year.\<close>

theorem fetch_duplicate_rows_counterexample:
  "\<not> (\<forall>srv indicator reqs f reqs'.
        fetch_indicator srv indicator reqs = (Inr f, reqs') \<longrightarrow> distinct (map row_key (rows f)))"
proof
  assume a: "\<forall>srv indicator reqs f reqs'.
        fetch_indicator srv indicator reqs = (Inr f, reqs') \<longrightarrow> distinct (map row_key (rows f))"
  have e: "fetch_indicator (\<lambda>url. page 200 [usa_2020 (JInt 1), usa_2020 (JInt 1)]) ''SP.POP.TOTL'' [] =
        (Inr \<lparr>columns = [''country_code'', ''country'', ''year'', ''SP.POP.TOTL''],
               rows = [indicator_row ''USA'' ''United States'' 2020 ''SP.POP.TOTL'' (JInt 1),
                       indicator_row ''USA'' ''United States'' 2020 ''SP.POP.TOTL'' (JInt 1)]\<rparr>,
         [indicator_url ''SP.POP.TOTL''])"
    by (simp add: fetch_eval)
  from a[rule_format, OF e] show False by simp
qed







section \<open>Properties of the outer join\<close>



































subsection \<open>The scenario and the example tables, evaluated\<close>

lemmas merge_eval =
  merge_frames_def reduce_def pd_merge_def bind_e_simps merge_keys_def key_of_def cell_def
  DataFrame_def indicator_row_def all_keys_def join_key_def rows_at_def join_row_def
  value_columns_def suffixed_def side_cell_def indicators_def



lemma example_frames:
  "fetch_frames (example_server gdp) indicators [] =
     (Inr [DataFrame [indicator_row ''USA'' ''United States'' 2020 ''EG.FEC.RNEW.ZS'' (JFloat (Fin 10)),
                      indicator_row ''FRA'' ''France'' 1980 ''EG.FEC.RNEW.ZS'' (JFloat (Fin 5))],
           DataFrame [indicator_row ''USA'' ''United States'' 2020 ''EG.USE.PCAP.KG.OE'' (JFloat (Fin 100))],
           DataFrame [indicator_row ''USA'' ''United States'' 2020 ''SP.POP.TOTL'' (JInt 3)],
           DataFrame [indicator_row ''USA'' ''United States'' 2020 ''NY.GDP.PCAP.KD'' gdp]],
      map indicator_url indicators)"
  by (simp add: indicators_def example_server_def fetch_eval indicator_url_def)

lemma example_merged:
  "merge_frames
     [DataFrame [indicator_row ''USA'' ''United States'' 2020 ''EG.FEC.RNEW.ZS'' (JFloat (Fin 10)),
                 indicator_row ''FRA'' ''France'' 1980 ''EG.FEC.RNEW.ZS'' (JFloat (Fin 5))],
      DataFrame [indicator_row ''USA'' ''United States'' 2020 ''EG.USE.PCAP.KG.OE'' (JFloat (Fin 100))],
      DataFrame [indicator_row ''USA'' ''United States'' 2020 ''SP.POP.TOTL'' (JInt 3)],
      DataFrame [indicator_row ''USA'' ''United States'' 2020 ''NY.GDP.PCAP.KD'' gdp]]
   = Inr \<lparr>columns = merge_keys @ indicators,
          rows = [[(''country_code'', JStr ''USA''), (''country'', JStr ''United States''),
                   (''year'', JInt 2020), (''EG.FEC.RNEW.ZS'', JFloat (Fin 10)),
                   (''EG.USE.PCAP.KG.OE'', JFloat (Fin 100)), (''SP.POP.TOTL'', JInt 3),
                   (''NY.GDP.PCAP.KD'', gdp)],
                  [(''country_code'', JStr ''FRA''), (''country'', JStr ''France''),
                   (''year'', JInt 1980), (''EG.FEC.RNEW.ZS'', JFloat (Fin 5)),
                   (''EG.USE.PCAP.KG.OE'', JFloat NaN), (''SP.POP.TOTL'', JFloat NaN),
                   (''NY.GDP.PCAP.KD'', JFloat NaN)]]\<rparr>"
  by (simp add: merge_eval)

section \<open>Join completeness\<close>










section \<open>Properties of the Dataset Builder\<close>








lemmas clean_eval =
  clean_and_derive_def filter_year_code_def filter_countries_def dropna_def rename_def
  rename_col_def new_names_def column_op_def cell_op_def set_column_def dict_set_def isna_def
  bind_e_simps cell_def merge_keys_def indicators_def Let_def



lemma example_dataset_null:
  "build_dataset (example_server JNull) [''USA''] [] =
     (Inr \<lparr>columns = [''country_code'', ''country'', ''year'', ''renewable_share'',
                       ''energy_use_per_capita'', ''population'', ''gdp_per_capita'',
                       ''total_energy_use'', ''energy_intensity''],
            rows = [[(''country_code'', JStr ''USA''), (''country'', JStr ''United States''),
                     (''year'', JInt 2020), (''renewable_share'', JFloat (Fin 10)),
                     (''energy_use_per_capita'', JFloat (Fin 100)), (''population'', JInt 3),
                     (''gdp_per_capita'', JNull), (''total_energy_use'', JFloat (Fin 300)),
                     (''energy_intensity'', JFloat NaN)]]\<rparr>,
      map indicator_url indicators)"
  unfolding build_dataset_def example_frames
  by (simp add: example_merged bind_e_simps) (simp add: clean_eval)
















section \<open>Properties of the Forecaster\<close>




lemma length_upto_steps: "length [m + 1..m + steps] = nat steps"
  by simp







end
